theory Spec2Isabelle
  imports Main
begin

section \<open>The greeting helper (timeUtil.js)\<close>

text \<open>
  The three locale tables are JSON modules imported by the source
  (\<^verbatim>\<open>goodMorning.locales.json\<close> and its two siblings); their content is not part of the
  repository fragment, so every function below takes them as arguments. A table is the
  list of the object's own properties in the order \<^verbatim>\<open>Object.keys\<close> enumerates them: a
  language name and the greeting in that language.
\<close>

type_synonym locales = "(string \<times> string) list"

text \<open>\<^verbatim>\<open>Object.keys(o)\<close> and the property read \<^verbatim>\<open>o[k]\<close>; a missing property reads as
  \<^verbatim>\<open>undefined\<close>, which is \<open>None\<close> here.\<close>

definition Object_keys :: "locales \<Rightarrow> string list" where
  "Object_keys greetings = map fst greetings"

definition property :: "locales \<Rightarrow> string \<Rightarrow> string option" where
  "property greetings k = map_of greetings k"

text \<open>A property key that is \<^verbatim>\<open>undefined\<close> is converted to the string of that name.\<close>

definition ToPropertyKey :: "string option \<Rightarrow> string" where
  "ToPropertyKey k = (case k of None \<Rightarrow> ''undefined'' | Some s \<Rightarrow> s)"

text \<open>
  \<^verbatim>\<open>const random = array => array[greetingRandomSeed % array.length];\<close>
  On the empty array the remainder is \<^verbatim>\<open>NaN\<close> and the read is \<^verbatim>\<open>undefined\<close>.
  The seed is \<^verbatim>\<open>Math.floor(Math.random() * 1000000)\<close>, a natural number chosen once when
  the module is loaded; it is an argument here.
\<close>

definition random :: "nat \<Rightarrow> 'a list \<Rightarrow> 'a option" where
  "random greetingRandomSeed array =
     (if length array = 0 then None
      else Some (array ! (greetingRandomSeed mod length array)))"

text \<open>
  \<^verbatim>\<open>
  const timeOfDay = hour => {
    if (hour < 12) return goodMorning;
    if (hour < 17) return goodAfternoon;
    return goodEvening;
  };
  \<close>
\<close>

definition timeOfDay :: "locales \<Rightarrow> locales \<Rightarrow> locales \<Rightarrow> nat \<Rightarrow> locales" where
  "timeOfDay goodMorning goodAfternoon goodEvening hour =
     (if hour < 12 then goodMorning
      else if hour < 17 then goodAfternoon
      else goodEvening)"

text \<open>The returned object; a field that is \<^verbatim>\<open>undefined\<close> is \<open>None\<close>.\<close>

record greeting_pair =
  language :: "string option"
  greeting :: "string option"

text \<open>
  \<open>currentHour\<close> is \<^verbatim>\<open>new Date(Date.now()).getHours()\<close>, the local hour of the call.
\<close>

definition getTimeBasedGreeting ::
  "nat \<Rightarrow> locales \<Rightarrow> locales \<Rightarrow> locales \<Rightarrow> nat \<Rightarrow> greeting_pair" where
  "getTimeBasedGreeting greetingRandomSeed goodMorning goodAfternoon goodEvening currentHour =
     (if currentHour \<ge> 23 then
        \<lparr>language = Some ''Seriously'', greeting = Some ''Get some rest''\<rparr>
      else
        let greetings = timeOfDay goodMorning goodAfternoon goodEvening currentHour;
            greetingsKey = random greetingRandomSeed (Object_keys greetings)
        in \<lparr>language = greetingsKey,
            greeting = property greetings (ToPropertyKey greetingsKey)\<rparr>)"


section \<open>The scaffolder client (class ScaffolderClient)\<close>

subsection \<open>Values, errors, requests and responses\<close>

text \<open>
  A parsed JSON value. An object is the list of its members; the objects that
  \<^verbatim>\<open>JSON.parse\<close> builds have no repeated member name. Numbers play no role below.
\<close>

datatype json =
    JNull
  | JBool bool
  | JNumber int
  | JString string
  | JArray "json list"
  | JObject "(string \<times> json) list"

text \<open>What a promise is rejected with, or what is thrown.\<close>

datatype js_error =
    BackendRequestFailed string \<comment> \<open>\<^verbatim>\<open>new Error(message)\<close> of \<^verbatim>\<open>scaffold\<close>, with its message\<close>
  | SyntaxError string \<comment> \<open>a text that is not JSON was parsed (the text)\<close>
  | TypeError \<comment> \<open>a property of \<^verbatim>\<open>null\<close> was destructured\<close>
  | Rejected string \<comment> \<open>the reason an injected API or the transport gave\<close>
  | EventSourceError \<comment> \<open>the event handed to the listener of \<^verbatim>\<open>error\<close>\<close>

datatype http_method = GET | POST

text \<open>
  A request as the client describes it: \<open>headers\<close> are the headers the client passes,
  \<open>body\<close> is the value whose JSON text is sent.
\<close>

record request =
  http_method :: http_method
  url :: string
  headers :: "(string \<times> string) list"
  body :: "json option"

text \<open>
  A response: \<^verbatim>\<open>response.text()\<close> delivers \<open>body_text\<close>, and \<^verbatim>\<open>response.json()\<close>
  delivers what \<^verbatim>\<open>JSON.parse\<close> makes of it.
\<close>

record response =
  status :: nat
  statusText :: string
  body_text :: string

text \<open>
  The two injected APIs: \<^verbatim>\<open>discoveryApi.getBaseUrl(pluginId)\<close> and
  \<^verbatim>\<open>identityApi.getIdToken()\<close>, each with the outcome of its promise. A token that is
  \<^verbatim>\<open>undefined\<close> is \<open>None\<close>.
\<close>

record client =
  discoveryApi :: "string \<Rightarrow> js_error + string"
  identityApi :: "js_error + string option"

subsection \<open>Functions of the platform used by the client\<close>

text \<open>
  \<^verbatim>\<open>fetch\<close>, \<^verbatim>\<open>JSON.parse\<close> and \<^verbatim>\<open>String.prototype.trim\<close> are arguments of the functions
  that call them: \<open>fetch :: request \<Rightarrow> js_error + response\<close>,
  \<open>JSON_parse :: string \<Rightarrow> json option\<close> (\<open>None\<close> when the text is not JSON and a
  \<^verbatim>\<open>SyntaxError\<close> is thrown) and \<open>trim :: string \<Rightarrow> string\<close>.
\<close>

text \<open>The decimal numeral of a number, as a template literal renders it.\<close>

fun ToString :: "nat \<Rightarrow> string" where
  "ToString n =
     (if n < 10 then [''0123456789'' ! n]
      else ToString (n div 10) @ [''0123456789'' ! (n mod 10)])"

declare ToString.simps [simp del]

text \<open>
  \<^verbatim>\<open>encodeURIComponent\<close> on a string held as its UTF-8 bytes: letters, digits and the
  marks \<^verbatim>\<open>- _ . ! ~ * ' ( )\<close> stay, every other byte becomes a percent sign and two
  upper-case hexadecimal digits.
\<close>

definition uriUnescaped :: "char \<Rightarrow> bool" where
  "uriUnescaped c \<longleftrightarrow>
     c \<in> set (''ABCDEFGHIJKLMNOPQRSTUVWXYZabcdefghijklmnopqrstuvwxyz0123456789''
              @ ''-_.!~*()'' @ [CHR 0x27])"

definition percentEncode :: "char \<Rightarrow> string" where
  "percentEncode c =
     [CHR ''%'', ''0123456789ABCDEF'' ! (of_char c div 16),
                ''0123456789ABCDEF'' ! (of_char c mod 16)]"

definition encodeURIComponent :: "string \<Rightarrow> string" where
  "encodeURIComponent s =
     concat (map (\<lambda>c. if uriUnescaped c then [c] else percentEncode c) s)"

subsection \<open>scaffold\<close>

text \<open>
  The request of \<^verbatim>\<open>scaffold\<close>:
  \<^verbatim>\<open>
  fetch(url, {
    method: 'POST',
    headers: {
      'Content-Type': 'application/json',
      ...(token && { Authorization: `Bearer ${token}` }),
    },
    body: JSON.stringify({ templateName, values: { ...values } }),
  })
  \<close>
  A token that is \<^verbatim>\<open>undefined\<close> or the empty string is falsy and adds nothing.
\<close>

definition scaffold_request ::
  "string option \<Rightarrow> string \<Rightarrow> string \<Rightarrow> (string \<times> json) list \<Rightarrow> request" where
  "scaffold_request token baseUrl templateName values =
     \<lparr>http_method = POST,
      url = baseUrl @ ''/v2/tasks'',
      headers = (''Content-Type'', ''application/json'') #
        (case token of
           None \<Rightarrow> []
         | Some t \<Rightarrow> if t = [] then [] else [(''Authorization'', ''Bearer '' @ t)]),
      body = Some (JObject [(''templateName'', JString templateName),
                            (''values'', JObject values)])\<rparr>"

text \<open>
  \<^verbatim>\<open>const { id } = (await response.json()) as { id: string };\<close>
  Destructuring \<^verbatim>\<open>null\<close> throws; an object gives its member \<^verbatim>\<open>id\<close> or
  \<^verbatim>\<open>undefined\<close> (\<open>None\<close>); any other value has no such property.
\<close>

fun destructure_id :: "json \<Rightarrow> js_error + json option" where
  "destructure_id JNull = Inl TypeError"
| "destructure_id (JObject members) = Inr (map_of members ''id'')"
| "destructure_id _ = Inr None"

text \<open>
  \<^verbatim>\<open>scaffold(templateName, values)\<close>: \<open>Inl\<close> is the rejection of the returned promise,
  \<open>Inr\<close> the value it resolves to.
\<close>

definition scaffold ::
  "client \<Rightarrow> (request \<Rightarrow> js_error + response) \<Rightarrow> (string \<Rightarrow> json option)
     \<Rightarrow> (string \<Rightarrow> string) \<Rightarrow> string \<Rightarrow> (string \<times> json) list
     \<Rightarrow> js_error + json option" where
  "scaffold this fetch JSON_parse trim templateName values =
     (case identityApi this of
        Inl e \<Rightarrow> Inl e
      | Inr token \<Rightarrow>
     (case discoveryApi this ''scaffolder'' of
        Inl e \<Rightarrow> Inl e
      | Inr baseUrl \<Rightarrow>
     (case fetch (scaffold_request token baseUrl templateName values) of
        Inl e \<Rightarrow> Inl e
      | Inr response \<Rightarrow>
          if status response \<noteq> 201 then
            Inl (BackendRequestFailed
                  (''Backend request failed, ''
                     @ (ToString (status response) @ '' '' @ statusText response)
                     @ '' '' @ trim (body_text response)))
          else
            (case JSON_parse (body_text response) of
               None \<Rightarrow> Inl (SyntaxError (body_text response))
             | Some v \<Rightarrow> destructure_id v))))"

subsection \<open>getTask\<close>

text \<open>
  \<^verbatim>\<open>
  fetch(url, { headers: token ? { Authorization: `Bearer ${token}` } : {} })
    .then(x => x.json())
  \<close>
\<close>

definition getTask_request :: "string option \<Rightarrow> string \<Rightarrow> string \<Rightarrow> request" where
  "getTask_request token baseUrl taskId =
     \<lparr>http_method = GET,
      url = baseUrl @ ''/v2/tasks/'' @ encodeURIComponent taskId,
      headers =
        (case token of
           None \<Rightarrow> []
         | Some t \<Rightarrow> if t = [] then [] else [(''Authorization'', ''Bearer '' @ t)]),
      body = None\<rparr>"

definition getTask ::
  "client \<Rightarrow> (request \<Rightarrow> js_error + response) \<Rightarrow> (string \<Rightarrow> json option)
     \<Rightarrow> string \<Rightarrow> js_error + json" where
  "getTask this fetch JSON_parse taskId =
     (case identityApi this of
        Inl e \<Rightarrow> Inl e
      | Inr token \<Rightarrow>
     (case discoveryApi this ''scaffolder'' of
        Inl e \<Rightarrow> Inl e
      | Inr baseUrl \<Rightarrow>
     (case fetch (getTask_request token baseUrl taskId) of
        Inl e \<Rightarrow> Inl e
      | Inr x \<Rightarrow>
          (case JSON_parse (body_text x) of
             None \<Rightarrow> Inl (SyntaxError (body_text x))
           | Some v \<Rightarrow> Inr v))))"


subsection \<open>streamLogs\<close>

text \<open>
  What an observer can be handed: \<^verbatim>\<open>next(value)\<close>, \<^verbatim>\<open>error(reason)\<close>,
  \<^verbatim>\<open>complete()\<close>.
\<close>

datatype notification = Next json | Error js_error | Complete

text \<open>
  An \<^verbatim>\<open>EventSource\<close>: the request that opens the connection, and whether
  \<^verbatim>\<open>close()\<close> has been called on it (\<open>CLOSED\<close>) or not (\<open>OPEN\<close>: connecting or
  connected).
\<close>

datatype ready_state = OPEN | CLOSED

record event_source =
  es_request :: request
  readyState :: ready_state

text \<open>
  \<^verbatim>\<open>new EventSource(url)\<close>: the constructor is given the URL and nothing else, so the
  client passes no header.
\<close>

definition EventSource :: "string \<Rightarrow> event_source" where
  "EventSource u =
     \<lparr>es_request = \<lparr>http_method = GET, url = u, headers = [], body = None\<rparr>,
      readyState = OPEN\<rparr>"

text \<open>
  One subscription to the observable: whether it is closed, what its observer has been
  handed so far (oldest first), and the event source opened for it, if any.
\<close>

record subscription =
  closed :: bool
  observed :: "notification list"
  eventSource :: "event_source option"

text \<open>
  The subscription observer of the observable library: while the subscription is open
  \<^verbatim>\<open>next\<close> hands the value to the observer, \<^verbatim>\<open>error\<close> and \<^verbatim>\<open>complete\<close> close the
  subscription and hand the notification over; on a closed subscription all three do
  nothing.
\<close>

definition notify :: "subscription \<Rightarrow> notification \<Rightarrow> subscription" where
  "notify s n =
     (if closed s then s
      else case n of
        Next v \<Rightarrow> s\<lparr>observed := observed s @ [Next v]\<rparr>
      | Error e \<Rightarrow> s\<lparr>closed := True, observed := observed s @ [Error e]\<rparr>
      | Complete \<Rightarrow> s\<lparr>closed := True, observed := observed s @ [Complete]\<rparr>)"

text \<open>
  \<^verbatim>\<open>
  const params = new URLSearchParams();
  if (after !== undefined) {
    params.set('after', String(Number(after)));
  }
  \<close>
  Here \<open>after\<close> is a sequence number, a natural number; for the numbers below
  \<open>10\<^sup>2\<^sup>1\<close> the source's rendering is the decimal numeral, as \<open>ToString\<close> gives it
  (larger, negative and fractional numbers are outside this type). The binding is not
  read again by the source.
\<close>

definition streamLogs_params :: "nat option \<Rightarrow> (string \<times> string) list" where
  "streamLogs_params after =
     (case after of None \<Rightarrow> [] | Some n \<Rightarrow> [(''after'', ToString n)])"

text \<open>
  \<^verbatim>\<open>streamLogs({ taskId, after })\<close>, subscribed to: the function given to the observable
  builds \<open>params\<close>, asks the discovery API for the base URL and, when that resolves,
  opens the event source on
  \<^verbatim>\<open>`${baseUrl}/v2/tasks/${encodeURIComponent(taskId)}/eventstream`\<close> and registers the
  three listeners below; when it is rejected, the reason goes to \<^verbatim>\<open>subscriber.error\<close>.
  The function returns nothing, so the subscription has no teardown. The identity API is
  not called. The answer of the discovery API is taken at subscription; until it has
  arrived no event source exists and no event can arrive.
\<close>

definition streamLogs :: "client \<Rightarrow> string \<Rightarrow> nat option \<Rightarrow> subscription" where
  "streamLogs this taskId after =
     (let params = streamLogs_params after in
      case discoveryApi this ''scaffolder'' of
        Inr baseUrl \<Rightarrow>
          let url = baseUrl @ ''/v2/tasks/'' @ encodeURIComponent taskId @ ''/eventstream''
          in \<lparr>closed = False, observed = [], eventSource = Some (EventSource url)\<rparr>
      | Inl error \<Rightarrow>
          notify \<lparr>closed = False, observed = [], eventSource = None\<rparr> (Error error))"

text \<open>
  An event arriving on the event source: its name and its \<^verbatim>\<open>data\<close> field (\<open>None\<close>
  when the field is absent).
\<close>

datatype inbound = Log "string option" | Completion "string option" | ErrorEvent

text \<open>
  The listeners, each as the list of calls it makes on the subscriber, in order.
  \<^verbatim>\<open>
  eventSource.addEventListener('log', (event: any) => {
    if (event.data) {
      try {
        subscriber.next(JSON.parse(event.data));
      } catch (ex) {
        subscriber.error(ex);
      }
    }
  });
  \<close>
  The listener of \<^verbatim>\<open>completion\<close> does the same and then calls
  \<^verbatim>\<open>subscriber.complete()\<close>; the listener of \<^verbatim>\<open>error\<close> calls
  \<^verbatim>\<open>subscriber.error(event)\<close>. Absent data and the empty string are falsy.
\<close>

definition on_log :: "(string \<Rightarrow> json option) \<Rightarrow> string option \<Rightarrow> notification list" where
  "on_log JSON_parse data =
     (case data of
        None \<Rightarrow> []
      | Some d \<Rightarrow>
          if d = [] then []
          else (case JSON_parse d of
                  Some v \<Rightarrow> [Next v]
                | None \<Rightarrow> [Error (SyntaxError d)]))"

definition on_completion ::
  "(string \<Rightarrow> json option) \<Rightarrow> string option \<Rightarrow> notification list" where
  "on_completion JSON_parse data =
     (case data of
        None \<Rightarrow> []
      | Some d \<Rightarrow>
          if d = [] then []
          else (case JSON_parse d of
                  Some v \<Rightarrow> [Next v]
                | None \<Rightarrow> [Error (SyntaxError d)]))
     @ [Complete]"

definition on_error :: "notification list" where
  "on_error = [Error EventSourceError]"

fun listener :: "(string \<Rightarrow> json option) \<Rightarrow> inbound \<Rightarrow> notification list" where
  "listener JSON_parse (Log data) = on_log JSON_parse data"
| "listener JSON_parse (Completion data) = on_completion JSON_parse data"
| "listener JSON_parse ErrorEvent = on_error"

text \<open>
  An event is dispatched to its listener when there is an event source and it has not
  been closed.
\<close>

definition dispatch ::
  "(string \<Rightarrow> json option) \<Rightarrow> subscription \<Rightarrow> inbound \<Rightarrow> subscription" where
  "dispatch JSON_parse s ev =
     (case eventSource s of
        None \<Rightarrow> s
      | Some es \<Rightarrow>
          if readyState es = CLOSED then s
          else foldl notify s (listener JSON_parse ev))"

text \<open>
  \<^verbatim>\<open>subscription.unsubscribe()\<close>: the subscription is closed and its teardown, if it
  has one, is run; this one has none.
\<close>

definition unsubscribe :: "subscription \<Rightarrow> subscription" where
  "unsubscribe s = (if closed s then s else s\<lparr>closed := True\<rparr>)"

text \<open>What happens to a subscription: an event arrives, or the consumer unsubscribes.\<close>

datatype happening = Inbound inbound | Unsubscribe

fun step :: "(string \<Rightarrow> json option) \<Rightarrow> subscription \<Rightarrow> happening \<Rightarrow> subscription" where
  "step JSON_parse s (Inbound ev) = dispatch JSON_parse s ev"
| "step JSON_parse s Unsubscribe = unsubscribe s"

definition receive ::
  "(string \<Rightarrow> json option) \<Rightarrow> subscription \<Rightarrow> inbound list \<Rightarrow> subscription" where
  "receive JSON_parse s evs = foldl (dispatch JSON_parse) s evs"

definition run ::
  "(string \<Rightarrow> json option) \<Rightarrow> subscription \<Rightarrow> happening list \<Rightarrow> subscription" where
  "run JSON_parse s steps = foldl (step JSON_parse) s steps"

subsection \<open>The words of the specification about a stream of events\<close>

text \<open>
  The payload an event carries for the observer: the parsed data of a \<^verbatim>\<open>log\<close> or
  \<^verbatim>\<open>completion\<close> event whose data is not empty and is JSON.
\<close>

definition payload :: "(string \<Rightarrow> json option) \<Rightarrow> inbound \<Rightarrow> json list" where
  "payload JSON_parse ev =
     (case ev of
        ErrorEvent \<Rightarrow> []
      | Log data \<Rightarrow>
          (case data of None \<Rightarrow> [] | Some d \<Rightarrow>
             if d = [] then [] else (case JSON_parse d of None \<Rightarrow> [] | Some v \<Rightarrow> [v]))
      | Completion data \<Rightarrow>
          (case data of None \<Rightarrow> [] | Some d \<Rightarrow>
             if d = [] then [] else (case JSON_parse d of None \<Rightarrow> [] | Some v \<Rightarrow> [v])))"

text \<open>Data that is present, not empty, and not JSON.\<close>

definition malformed :: "(string \<Rightarrow> json option) \<Rightarrow> string option \<Rightarrow> bool" where
  "malformed JSON_parse data =
     (case data of None \<Rightarrow> False | Some d \<Rightarrow> d \<noteq> [] \<and> JSON_parse d = None)"

text \<open>
  The events that end the sequence: a \<^verbatim>\<open>completion\<close> event, an \<^verbatim>\<open>error\<close> event,
  and a \<^verbatim>\<open>log\<close> event with malformed data.
\<close>

definition ends :: "(string \<Rightarrow> json option) \<Rightarrow> inbound \<Rightarrow> bool" where
  "ends JSON_parse ev =
     (case ev of
        Log data \<Rightarrow> malformed JSON_parse data
      | Completion data \<Rightarrow> True
      | ErrorEvent \<Rightarrow> True)"

text \<open>How the sequence ends at such an event.\<close>

definition ending :: "(string \<Rightarrow> json option) \<Rightarrow> inbound \<Rightarrow> notification" where
  "ending JSON_parse ev =
     (case ev of
        ErrorEvent \<Rightarrow> Error EventSourceError
      | Log data \<Rightarrow> Error (SyntaxError (case data of None \<Rightarrow> [] | Some d \<Rightarrow> d))
      | Completion data \<Rightarrow>
          if malformed JSON_parse data
          then Error (SyntaxError (case data of None \<Rightarrow> [] | Some d \<Rightarrow> d))
          else Complete)"

subsection \<open>Concrete inputs\<close>

text \<open>
  A client whose discovery API resolves to one base URL and whose identity API supplies
  the token \<^verbatim>\<open>tok\<close>.
\<close>

definition sample_client :: client where
  "sample_client =
     \<lparr>discoveryApi = (\<lambda>pluginId. Inr ''http://localhost:7000/api/scaffolder''),
      identityApi = Inr (Some ''tok'')\<rparr>"

text \<open>
  The values of \<^verbatim>\<open>JSON.parse\<close> on the five texts used in the concrete runs: three
  JSON texts of objects, and \<^verbatim>\<open>oops\<close> and the empty text, which are not JSON. It
  stands for \<^verbatim>\<open>JSON.parse\<close> on these texts only; the general statements quantify
  over the parser.
\<close>

definition sample_JSON_parse :: "string \<Rightarrow> json option" where
  \<open>sample_JSON_parse s =
     (if s = ''{"id":"abc"}'' then Some (JObject [(''id'', JString ''abc'')])
      else if s = ''{"id":"1"}'' then Some (JObject [(''id'', JString ''1'')])
      else if s = ''{"id":"2"}'' then Some (JObject [(''id'', JString ''2'')])
      else None)\<close>

text \<open>\<^verbatim>\<open>String.prototype.trim\<close> on texts of ASCII characters.\<close>

definition sample_trim :: "string \<Rightarrow> string" where
  "sample_trim s =
     rev (dropWhile (\<lambda>c. c \<in> set [CHR 0x20, CHR 0x09, CHR 0x0A, CHR 0x0B, CHR 0x0C, CHR 0x0D])
       (rev (dropWhile (\<lambda>c. c \<in> set [CHR 0x20, CHR 0x09, CHR 0x0A, CHR 0x0B, CHR 0x0C, CHR 0x0D])
          s)))"

section \<open>Properties of the greeting helper\<close>

lemma random_nonempty:
  "array \<noteq> [] \<Longrightarrow> random seed array = Some (array ! (seed mod length array))"
  by (simp add: random_def)

lemma random_empty: "random seed [] = None"
  by (simp add: random_def)


text \<open>
  C6. Before 23:00 the morning table is used when the hour is below 12, the afternoon
  table when it is below 17, the evening table otherwise. The result's language is the
  key at position seed mod (number of keys) of that table's key list, and its greeting
  is the table's value for that key. (On a table without keys both fields are
  undefined, as the remainder by zero is not a number in the source.)
\<close>

theorem getTimeBasedGreeting_selects_entry:
  assumes "h < 23"
  shows "getTimeBasedGreeting seed goodMorning goodAfternoon goodEvening h =
     (let bucket = (if h < 12 then goodMorning else if h < 17 then goodAfternoon
                    else goodEvening);
          keys = map fst bucket
      in if keys = [] then \<lparr>language = None, greeting = None\<rparr>
         else \<lparr>language = Some (keys ! (seed mod length keys)),
               greeting = map_of bucket (keys ! (seed mod length keys))\<rparr>)"
  using assms
  by (simp add: getTimeBasedGreeting_def timeOfDay_def Object_keys_def property_def
      ToPropertyKey_def random_def Let_def)

theorem getTimeBasedGreeting_selects_entry_witness:
  "getTimeBasedGreeting 7
     [(''English'', ''Good morning''), (''French'', ''Bonjour'')]
     [(''English'', ''Good afternoon''), (''French'', ''Bon apres-midi'')]
     [(''English'', ''Good evening''), (''French'', ''Bonsoir''), (''Dutch'', ''Goedenavond'')]
     18
   = \<lparr>language = Some ''French'', greeting = Some ''Bonsoir''\<rparr>"
  using getTimeBasedGreeting_selects_entry [of 18 7
     "[(''English'', ''Good morning''), (''French'', ''Bonjour'')]"
     "[(''English'', ''Good afternoon''), (''French'', ''Bon apres-midi'')]"
     "[(''English'', ''Good evening''), (''French'', ''Bonsoir''), (''Dutch'', ''Goedenavond'')]"]
  by simp

text \<open>
  C7. From 23:00 on the result is the fixed pair, whatever the tables and the seed.
\<close>

theorem getTimeBasedGreeting_late_override:
  assumes "h \<ge> 23"
  shows "getTimeBasedGreeting seed goodMorning goodAfternoon goodEvening h =
           \<lparr>language = Some ''Seriously'', greeting = Some ''Get some rest''\<rparr>"
  using assms by (simp add: getTimeBasedGreeting_def)

theorem getTimeBasedGreeting_late_override_witness:
  "getTimeBasedGreeting 123456 [] [(''English'', ''Good afternoon'')] [] 23 =
           \<lparr>language = Some ''Seriously'', greeting = Some ''Get some rest''\<rparr>"
  using getTimeBasedGreeting_late_override [of 23 123456 "[]" "[(''English'', ''Good afternoon'')]" "[]"]
  by simp

text \<open>
  C8. Two calls with the same seed give the same pair when the local hour lies in the
  same bucket at both calls (below 12, below 17, below 23, or from 23 on). The hour is
  read anew at every call, so across a bucket boundary the pair changes although the
  seed does not: at 22:00 the evening table is consulted, at 23:00 the fixed pair is
  returned.
\<close>

theorem getTimeBasedGreeting_same_bucket:
  assumes "h1 < 12 \<longleftrightarrow> h2 < 12" and "h1 < 17 \<longleftrightarrow> h2 < 17" and "h1 < 23 \<longleftrightarrow> h2 < 23"
  shows "getTimeBasedGreeting seed goodMorning goodAfternoon goodEvening h1 =
         getTimeBasedGreeting seed goodMorning goodAfternoon goodEvening h2"
proof -
  have "timeOfDay goodMorning goodAfternoon goodEvening h1 =
        timeOfDay goodMorning goodAfternoon goodEvening h2"
    using assms(1,2) by (simp add: timeOfDay_def)
  moreover have "h1 \<ge> 23 \<longleftrightarrow> h2 \<ge> 23"
    using assms(3) by auto
  ultimately show ?thesis
    by (simp add: getTimeBasedGreeting_def)
qed

theorem getTimeBasedGreeting_same_bucket_witness:
  "getTimeBasedGreeting 5
      [(''English'', ''Good morning''), (''French'', ''Bonjour'')]
      [(''English'', ''Good afternoon'')] [(''English'', ''Good evening'')] 8
   = getTimeBasedGreeting 5
      [(''English'', ''Good morning''), (''French'', ''Bonjour'')]
      [(''English'', ''Good afternoon'')] [(''English'', ''Good evening'')] 11"
  using getTimeBasedGreeting_same_bucket [of 8 11 5
      "[(''English'', ''Good morning''), (''French'', ''Bonjour'')]"
      "[(''English'', ''Good afternoon'')]" "[(''English'', ''Good evening'')]"]
  by simp

theorem getTimeBasedGreeting_hour_changes_result:
  "getTimeBasedGreeting 0
      [(''English'', ''Good morning'')] [(''English'', ''Good afternoon'')]
      [(''English'', ''Good evening'')] 22
   \<noteq> getTimeBasedGreeting 0
      [(''English'', ''Good morning'')] [(''English'', ''Good afternoon'')]
      [(''English'', ''Good evening'')] 23"
  by (simp add: getTimeBasedGreeting_def timeOfDay_def Object_keys_def property_def
      ToPropertyKey_def random_def)





section \<open>Properties of the scaffolder client\<close>

subsection \<open>Helper facts\<close>

lemma ToString_500: "ToString 500 = ''500''"
  by code_simp

lemma encodeURIComponent_task_1: "encodeURIComponent ''task-1'' = ''task-1''"
  by code_simp

lemma notify_closed: "closed s \<Longrightarrow> notify s n = s"
  by (simp add: notify_def)

lemma foldl_notify_closed: "closed s \<Longrightarrow> foldl notify s ns = s"
  by (induction ns) (simp_all add: notify_closed)

lemma foldl_notify_eventSource: "eventSource (foldl notify s ns) = eventSource s"
  by (induction ns arbitrary: s) (simp_all add: notify_def split: notification.splits)

lemma dispatch_closed: "closed s \<Longrightarrow> dispatch JSON_parse s ev = s"
  by (simp add: dispatch_def foldl_notify_closed split: option.splits)

lemma dispatch_eventSource: "eventSource (dispatch JSON_parse s ev) = eventSource s"
  by (simp add: dispatch_def foldl_notify_eventSource split: option.splits)

lemma receive_closed: "closed s \<Longrightarrow> receive JSON_parse s evs = s"
  unfolding receive_def by (induction evs) (simp_all add: dispatch_closed)

lemma receive_Cons:
  "receive JSON_parse s (ev # evs) = receive JSON_parse (dispatch JSON_parse s ev) evs"
  by (simp add: receive_def)

lemma step_eventSource: "eventSource (step JSON_parse s h) = eventSource s"
  by (cases h) (simp_all add: dispatch_eventSource unsubscribe_def)

lemma run_eventSource: "eventSource (run JSON_parse s steps) = eventSource s"
  unfolding run_def by (induction steps arbitrary: s) (simp_all add: step_eventSource)

lemma step_closed: "closed s \<Longrightarrow> step JSON_parse s h = s"
  by (cases h) (simp_all add: dispatch_closed unsubscribe_def)

lemma run_closed: "closed s \<Longrightarrow> run JSON_parse s steps = s"
  unfolding run_def by (induction steps) (simp_all add: step_closed)

lemma run_append:
  "run JSON_parse s (steps @ later) = run JSON_parse (run JSON_parse s steps) later"
  by (simp add: run_def)

text \<open>What one event does to an open subscription whose event source is open.\<close>

lemma dispatch_not_ends:
  assumes "\<not> closed s" and "eventSource s = Some es" and "readyState es = OPEN"
      and "\<not> ends JSON_parse ev"
  shows "dispatch JSON_parse s ev =
           s\<lparr>observed := observed s @ map Next (payload JSON_parse ev)\<rparr>"
  using assms
  by (cases ev)
     (auto simp: dispatch_def ends_def malformed_def payload_def on_log_def notify_def
           split: option.splits)

lemma dispatch_ends:
  assumes "\<not> closed s" and "eventSource s = Some es" and "readyState es = OPEN"
      and "ends JSON_parse ev"
  shows "dispatch JSON_parse s ev =
           s\<lparr>closed := True,
             observed := observed s @ map Next (payload JSON_parse ev)
                           @ [ending JSON_parse ev]\<rparr>"
  using assms
  by (cases ev)
     (auto simp: dispatch_def ends_def malformed_def payload_def ending_def on_log_def
                 on_completion_def on_error_def notify_def
           split: option.splits)

lemma receive_characterised:
  assumes "\<not> closed s" and "eventSource s = Some es" and "readyState es = OPEN"
  shows "receive JSON_parse s evs =
           s\<lparr>closed := (\<exists>ev \<in> set evs. ends JSON_parse ev),
             observed := observed s
               @ map Next (concat (map (payload JSON_parse)
                   (take (Suc (length (takeWhile (\<lambda>ev. \<not> ends JSON_parse ev) evs))) evs)))
               @ (case dropWhile (\<lambda>ev. \<not> ends JSON_parse ev) evs of
                    [] \<Rightarrow> []
                  | ev # rest \<Rightarrow> [ending JSON_parse ev])\<rparr>"
  using assms
proof (induction evs arbitrary: s)
  case Nil
  then show ?case by (simp add: receive_def)
next
  case (Cons ev evs)
  show ?case
  proof (cases "ends JSON_parse ev")
    case True
    with Cons.prems show ?thesis
      by (simp add: receive_Cons dispatch_ends receive_closed)
  next
    case False
    let ?s = "s\<lparr>observed := observed s @ map Next (payload JSON_parse ev)\<rparr>"
    have d: "dispatch JSON_parse s ev = ?s"
      using Cons.prems False by (rule dispatch_not_ends)
    have "\<not> closed ?s" "eventSource ?s = Some es"
      using Cons.prems by simp_all
    from Cons.IH [OF this Cons.prems(3)] False show ?thesis
      by (simp add: receive_Cons d)
  qed
qed



subsection \<open>scaffold\<close>

text \<open>
  C1. When the identity API, the discovery API and the transport have answered with a
  response: if the status is not 201, scaffold is rejected with an error whose message
  is the text \<^verbatim>\<open>Backend request failed, \<close> followed by the status, the status text and
  the trimmed body; if the status is 201 and the body is the JSON text of an object,
  scaffold resolves to the object's member \<^verbatim>\<open>id\<close> (undefined when there is none), and
  to undefined for a JSON value that is neither an object nor null. With status 201
  scaffold is still rejected when the body is not JSON or is the JSON text
  \<^verbatim>\<open>null\<close>: a status other than 201 is sufficient for an error, not necessary.
\<close>

theorem scaffold_outcome:
  assumes "identityApi this = Inr token"
      and "discoveryApi this ''scaffolder'' = Inr baseUrl"
      and "fetch (scaffold_request token baseUrl templateName values) = Inr response"
  shows "(status response \<noteq> 201 \<longrightarrow>
            scaffold this fetch JSON_parse trim templateName values =
              Inl (BackendRequestFailed
                    (''Backend request failed, '' @ ToString (status response) @ '' ''
                       @ statusText response @ '' '' @ trim (body_text response))))
       \<and> (status response = 201 \<longrightarrow>
            (\<forall>members. JSON_parse (body_text response) = Some (JObject members) \<longrightarrow>
               scaffold this fetch JSON_parse trim templateName values =
                 Inr (map_of members ''id''))
          \<and> (\<forall>v. JSON_parse (body_text response) = Some v \<longrightarrow> v \<noteq> JNull \<longrightarrow>
                 (\<forall>members. v \<noteq> JObject members) \<longrightarrow>
               scaffold this fetch JSON_parse trim templateName values = Inr None)
          \<and> (JSON_parse (body_text response) = None \<longrightarrow>
               scaffold this fetch JSON_parse trim templateName values =
                 Inl (SyntaxError (body_text response)))
          \<and> (JSON_parse (body_text response) = Some JNull \<longrightarrow>
               scaffold this fetch JSON_parse trim templateName values = Inl TypeError))"
proof -
  have other: "destructure_id v = Inr None"
    if "v \<noteq> JNull" and "\<forall>members. v \<noteq> JObject members" for v
    using that by (cases v) simp_all
  show ?thesis
    using assms by (auto simp: scaffold_def other)
qed

theorem scaffold_outcome_witness:
  \<open>scaffold sample_client
      (\<lambda>req. Inr \<lparr>status = 500, statusText = ''Internal Server Error'',
                   body_text = '' boom'' @ [CHR 0x0A]\<rparr>)
      sample_JSON_parse sample_trim ''template'' []
    = Inl (BackendRequestFailed ''Backend request failed, 500 Internal Server Error boom'')
   \<and> scaffold sample_client
      (\<lambda>req. Inr \<lparr>status = 201, statusText = ''Created'', body_text = ''{"id":"abc"}''\<rparr>)
      sample_JSON_parse sample_trim ''template'' []
    = Inr (Some (JString ''abc''))\<close>
  using
    scaffold_outcome [of sample_client "Some ''tok''" "''http://localhost:7000/api/scaffolder''"
      "\<lambda>req. Inr \<lparr>status = 500, statusText = ''Internal Server Error'',
                   body_text = '' boom'' @ [CHR 0x0A]\<rparr>"
      "''template''" "[]" _ sample_JSON_parse sample_trim]
    scaffold_outcome [of sample_client "Some ''tok''" "''http://localhost:7000/api/scaffolder''"
      \<open>\<lambda>req. Inr \<lparr>status = 201, statusText = ''Created'', body_text = ''{"id":"abc"}''\<rparr>\<close>
      "''template''" "[]" _ sample_JSON_parse sample_trim]
  by (simp add: sample_client_def sample_JSON_parse_def sample_trim_def ToString_500)

theorem scaffold_rejects_created_without_json:
  "status \<lparr>status = 201, statusText = ''Created'', body_text = ''''\<rparr> = 201
   \<and> scaffold sample_client
        (\<lambda>req. Inr \<lparr>status = 201, statusText = ''Created'', body_text = ''''\<rparr>)
        sample_JSON_parse sample_trim ''template'' []
      = Inl (SyntaxError '''')"
  by (simp add: scaffold_def sample_client_def sample_JSON_parse_def)

subsection \<open>The Authorization header\<close>

lemma scaffold_request_authorization:
  "t \<noteq> [] \<Longrightarrow>
     map_of (headers (scaffold_request (Some t) baseUrl templateName values)) ''Authorization''
       = Some (''Bearer '' @ t)"
  by (simp add: scaffold_request_def)

lemma getTask_request_authorization:
  "t \<noteq> [] \<Longrightarrow>
     map_of (headers (getTask_request (Some t) baseUrl taskId)) ''Authorization''
       = Some (''Bearer '' @ t)"
  by (simp add: getTask_request_def)

text \<open>
  C4. With an identity API that supplies the token \<^verbatim>\<open>tok\<close>, the requests of scaffold
  and getTask carry \<^verbatim>\<open>Authorization: Bearer tok\<close>, and the event source of streamLogs
  is opened with no header at all.
\<close>

theorem streamLogs_sends_no_authorization:
  "identityApi sample_client = Inr (Some ''tok'')
   \<and> map_of (headers (scaffold_request (Some ''tok'') ''http://localhost:7000/api/scaffolder''
         ''template'' [])) ''Authorization'' = Some ''Bearer tok''
   \<and> map_of (headers (getTask_request (Some ''tok'') ''http://localhost:7000/api/scaffolder''
         ''task-1'')) ''Authorization'' = Some ''Bearer tok''
   \<and> map_option (\<lambda>es. headers (es_request es))
         (eventSource (streamLogs sample_client ''task-1'' None)) = Some []"
  by (simp add: sample_client_def scaffold_request_def getTask_request_def streamLogs_def
      EventSource_def)

subsection \<open>The URL of the event stream\<close>

lemma streamLogs_ignores_after:
  "streamLogs this taskId after = streamLogs this taskId None"
  by (simp add: streamLogs_def)

text \<open>
  C5. Called with \<^verbatim>\<open>after = 5\<close>, streamLogs puts \<^verbatim>\<open>after=5\<close> into its search
  parameters and opens the event source on the URL without them.
\<close>

theorem streamLogs_url_without_after:
  "streamLogs_params (Some 5) = [(''after'', ''5'')]
   \<and> map_option (\<lambda>es. url (es_request es))
         (eventSource (streamLogs sample_client ''task-1'' (Some 5)))
       = Some ''http://localhost:7000/api/scaffolder/v2/tasks/task-1/eventstream''"
proof -
  have "ToString 5 = ''5''" by code_simp
  then show ?thesis
    by (simp add: streamLogs_params_def streamLogs_def sample_client_def EventSource_def
        encodeURIComponent_task_1)
qed

subsection \<open>The sequence handed to the observer\<close>

text \<open>
  C2. For a subscription whose event source has been opened and every list of inbound
  events: the sequence has ended exactly when the list holds a \<^verbatim>\<open>completion\<close> event,
  an \<^verbatim>\<open>error\<close> event, or a \<^verbatim>\<open>log\<close> event whose data is not empty and is not JSON.
  The observer is handed, by \<^verbatim>\<open>next\<close> and in arrival order, the payloads of the events
  up to and including the first such event, and then the ending of that event:
  \<^verbatim>\<open>complete\<close> for a \<^verbatim>\<open>completion\<close> event whose data is absent, empty or JSON (after
  its payload), an error otherwise. Nothing follows.
\<close>

theorem streamLogs_sequence:
  assumes "discoveryApi this ''scaffolder'' = Inr baseUrl"
  shows "(closed (receive JSON_parse (streamLogs this taskId after) evs)
           \<longleftrightarrow> (\<exists>ev \<in> set evs. ends JSON_parse ev))
       \<and> observed (receive JSON_parse (streamLogs this taskId after) evs) =
           map Next (concat (map (payload JSON_parse)
             (take (Suc (length (takeWhile (\<lambda>ev. \<not> ends JSON_parse ev) evs))) evs)))
           @ (case dropWhile (\<lambda>ev. \<not> ends JSON_parse ev) evs of
                [] \<Rightarrow> []
              | ev # rest \<Rightarrow> [ending JSON_parse ev])"
proof -
  let ?s = "streamLogs this taskId after"
  let ?es = "EventSource (baseUrl @ ''/v2/tasks/'' @ encodeURIComponent taskId @ ''/eventstream'')"
  have s: "\<not> closed ?s" "eventSource ?s = Some ?es" "observed ?s = []"
    using assms by (simp_all add: streamLogs_def)
  have es: "readyState ?es = OPEN"
    by (simp add: EventSource_def)
  note r = receive_characterised [OF s(1) s(2) es, of JSON_parse evs]
  show ?thesis
    by (subst r, subst r) (simp add: s(3))
qed

theorem streamLogs_sequence_witness:
  \<open>receive sample_JSON_parse (streamLogs sample_client ''task-1'' None)
      [Log (Some ''{"id":"1"}''), Log None, Completion (Some ''{"id":"2"}''),
       Log (Some ''{"id":"1"}'')]
    = \<lparr>closed = True,
       observed = [Next (JObject [(''id'', JString ''1'')]),
                   Next (JObject [(''id'', JString ''2'')]), Complete],
       eventSource = Some (EventSource
         ''http://localhost:7000/api/scaffolder/v2/tasks/task-1/eventstream'')\<rparr>\<close>
proof -
  let ?evs = \<open>[Log (Some ''{"id":"1"}''), Log None, Completion (Some ''{"id":"2"}''),
               Log (Some ''{"id":"1"}'')]\<close>
  let ?r = "receive sample_JSON_parse (streamLogs sample_client ''task-1'' None) ?evs"
  have d: "discoveryApi sample_client ''scaffolder'' = Inr ''http://localhost:7000/api/scaffolder''"
    by (simp add: sample_client_def)
  have "closed ?r = True
      \<and> observed ?r = [Next (JObject [(''id'', JString ''1'')]),
                       Next (JObject [(''id'', JString ''2'')]), Complete]"
    using streamLogs_sequence [OF d, of sample_JSON_parse "''task-1''" None ?evs]
    by (simp add: ends_def malformed_def payload_def ending_def sample_JSON_parse_def)
  moreover have "eventSource ?r = Some (EventSource
         ''http://localhost:7000/api/scaffolder/v2/tasks/task-1/eventstream'')"
    by (simp add: receive_def dispatch_eventSource streamLogs_def sample_client_def
        encodeURIComponent_task_1)
  ultimately show ?thesis
    by (cases ?r) simp
qed

theorem streamLogs_malformed_log_ends_sequence:
  \<open>receive sample_JSON_parse (streamLogs sample_client ''task-1'' None)
      [Log (Some ''oops''), Log (Some ''{"id":"2"}'')]
    = \<lparr>closed = True,
       observed = [Error (SyntaxError ''oops'')],
       eventSource = Some (EventSource
         ''http://localhost:7000/api/scaffolder/v2/tasks/task-1/eventstream'')\<rparr>\<close>
  by (simp add: receive_def dispatch_def streamLogs_def sample_client_def EventSource_def
      on_log_def notify_def sample_JSON_parse_def encodeURIComponent_task_1)

subsection \<open>The connection\<close>

text \<open>
  C3. The client never closes the event source. Whatever events arrive and whenever the
  consumer unsubscribes, the event source opened at subscription is still the one held
  and it is still open: the function given to the observable returns no teardown and no
  listener calls \<^verbatim>\<open>close\<close>. What ends is the delivery: once the sequence has
  completed or failed, or the consumer has unsubscribed, the observer is handed nothing
  more.
\<close>

theorem streamLogs_connection_stays_open:
  assumes "discoveryApi this ''scaffolder'' = Inr baseUrl"
  shows "eventSource (run JSON_parse (streamLogs this taskId after) steps) =
           Some (EventSource
             (baseUrl @ ''/v2/tasks/'' @ encodeURIComponent taskId @ ''/eventstream''))
       \<and> map_option readyState
           (eventSource (run JSON_parse (streamLogs this taskId after) steps)) = Some OPEN
       \<and> (closed (run JSON_parse (streamLogs this taskId after) steps) \<longrightarrow>
            run JSON_parse (streamLogs this taskId after) (steps @ later) =
            run JSON_parse (streamLogs this taskId after) steps)"
  using assms
  by (simp add: run_eventSource run_append run_closed streamLogs_def EventSource_def)

theorem streamLogs_connection_stays_open_witness:
  "eventSource (run sample_JSON_parse (streamLogs sample_client ''task-1'' None)
      [Inbound (Log None), Inbound ErrorEvent, Unsubscribe])
    = Some \<lparr>es_request =
               \<lparr>http_method = GET,
                url = ''http://localhost:7000/api/scaffolder/v2/tasks/task-1/eventstream'',
                headers = [], body = None\<rparr>,
             readyState = OPEN\<rparr>"
  using streamLogs_connection_stays_open [of sample_client
      "''http://localhost:7000/api/scaffolder''" sample_JSON_parse "''task-1''" None
      "[Inbound (Log None), Inbound ErrorEvent, Unsubscribe]" "[]"]
  by (simp add: sample_client_def EventSource_def encodeURIComponent_task_1)

theorem streamLogs_leaves_connection_open:
  "closed (run sample_JSON_parse (streamLogs sample_client ''task-1'' None)
      [Inbound (Completion None)])
   \<and> map_option readyState (eventSource
        (run sample_JSON_parse (streamLogs sample_client ''task-1'' None)
           [Inbound (Completion None)])) = Some OPEN
   \<and> closed (run sample_JSON_parse (streamLogs sample_client ''task-1'' None)
      [Inbound ErrorEvent])
   \<and> map_option readyState (eventSource
        (run sample_JSON_parse (streamLogs sample_client ''task-1'' None)
           [Inbound ErrorEvent])) = Some OPEN
   \<and> closed (run sample_JSON_parse (streamLogs sample_client ''task-1'' None)
      [Unsubscribe])
   \<and> map_option readyState (eventSource
        (run sample_JSON_parse (streamLogs sample_client ''task-1'' None)
           [Unsubscribe])) = Some OPEN"
  by (simp add: run_def dispatch_def unsubscribe_def streamLogs_def sample_client_def
      EventSource_def on_completion_def on_error_def notify_def)

subsection \<open>Events without data\<close>

text \<open>
  C10. For an event whose data is absent or empty: the listener of \<^verbatim>\<open>log\<close> makes no
  call on the subscriber, so the subscription is left as it was; the listener of
  \<^verbatim>\<open>completion\<close> calls \<^verbatim>\<open>complete\<close> and nothing else, so an open subscription is
  completed with no payload handed over. A listener calls \<^verbatim>\<open>next\<close> with a value only
  for a \<^verbatim>\<open>log\<close> or \<^verbatim>\<open>completion\<close> event whose data is not empty and parses to
  that value.
\<close>

theorem listeners_without_data:
  "(data = None \<or> data = Some [] \<longrightarrow>
      listener JSON_parse (Log data) = []
    \<and> dispatch JSON_parse s (Log data) = s
    \<and> listener JSON_parse (Completion data) = [Complete]
    \<and> (\<not> closed s \<and> eventSource s = Some es \<and> readyState es = OPEN \<longrightarrow>
         dispatch JSON_parse s (Completion data) =
           s\<lparr>closed := True, observed := observed s @ [Complete]\<rparr>))
   \<and> (Next v \<in> set (listener JSON_parse ev) \<longrightarrow>
        (\<exists>d. d \<noteq> [] \<and> JSON_parse d = Some v
             \<and> (ev = Log (Some d) \<or> ev = Completion (Some d))))"
proof -
  have calls: "Next v \<in> set (listener JSON_parse ev) \<longrightarrow>
        (\<exists>d. d \<noteq> [] \<and> JSON_parse d = Some v
             \<and> (ev = Log (Some d) \<or> ev = Completion (Some d)))"
    by (cases ev)
       (auto simp: on_log_def on_completion_def on_error_def split: option.splits if_splits)
  have empty: "listener JSON_parse (Log data) = []
    \<and> dispatch JSON_parse s (Log data) = s
    \<and> listener JSON_parse (Completion data) = [Complete]
    \<and> (\<not> closed s \<and> eventSource s = Some es \<and> readyState es = OPEN \<longrightarrow>
         dispatch JSON_parse s (Completion data) =
           s\<lparr>closed := True, observed := observed s @ [Complete]\<rparr>)"
    if "data = None \<or> data = Some []"
    using that
    by (auto simp: on_log_def on_completion_def dispatch_def notify_def split: option.splits)
  from calls empty show ?thesis by blast
qed

theorem listeners_without_data_witness:
  \<open>dispatch sample_JSON_parse (streamLogs sample_client ''task-1'' None) (Log (Some ''''))
     = streamLogs sample_client ''task-1'' None
   \<and> dispatch sample_JSON_parse (streamLogs sample_client ''task-1'' None) (Completion (Some ''''))
     = (streamLogs sample_client ''task-1'' None)\<lparr>closed := True, observed := [Complete]\<rparr>
   \<and> sample_JSON_parse ''{"id":"1"}'' = Some (JObject [(''id'', JString ''1'')])\<close>
  using listeners_without_data [of "Some ''''" sample_JSON_parse
      "streamLogs sample_client ''task-1'' None"
      "EventSource ''http://localhost:7000/api/scaffolder/v2/tasks/task-1/eventstream''"
      "JObject [(''id'', JString ''1'')]" \<open>Log (Some ''{"id":"1"}'')\<close>]
  by (simp add: streamLogs_def sample_client_def EventSource_def encodeURIComponent_task_1
      on_log_def sample_JSON_parse_def)

end
